theory Spec2Isabelle
  imports Main "HOL-Library.Sublist"
begin

section \<open>Library values the server code is written against\<close>

text \<open>
  \<^verbatim>\<open>base::Version\<close> holds a vector of numeric components. A default-constructed
  version, and one built from a string that does not parse, has no component and is
  invalid. Comparison walks the common prefix and then treats the missing components of
  the shorter version as zeros.
\<close>

type_synonym Version = "nat list"

definition Version_IsValid :: "Version \<Rightarrow> bool" where
  "Version_IsValid v = (v \<noteq> [])"

fun CompareVersionComponents :: "nat list \<Rightarrow> nat list \<Rightarrow> int" where
  "CompareVersionComponents [] [] = 0"
| "CompareVersionComponents (x # xs) [] =
     (if x > 0 then 1 else CompareVersionComponents xs [])"
| "CompareVersionComponents [] (y # ys) =
     (if y > 0 then - 1 else CompareVersionComponents [] ys)"
| "CompareVersionComponents (x # xs) (y # ys) =
     (if x > y then 1 else if x < y then - 1 else CompareVersionComponents xs ys)"

definition Version_gt :: "Version \<Rightarrow> Version \<Rightarrow> bool" where
  "Version_gt a b = (CompareVersionComponents a b > 0)"

text \<open>\<^verbatim>\<open>base::NumberToString\<close> on a non-negative number, and on an \<^verbatim>\<open>int\<close>.\<close>

definition digit_char :: "nat \<Rightarrow> char" where
  "digit_char d = ''0123456789'' ! (d mod 10)"

fun string_of_nat :: "nat \<Rightarrow> string" where
  "string_of_nat n =
     (if n < 10 then [digit_char n] else string_of_nat (n div 10) @ [digit_char (n mod 10)])"

declare string_of_nat.simps [simp del]

definition NumberToString :: "int \<Rightarrow> string" where
  "NumberToString i = (if i < 0 then CHR ''-'' # string_of_nat (nat (- i)) else string_of_nat (nat i))"

text \<open>\<^verbatim>\<open>Version::GetString\<close>: the components joined by dots.\<close>

fun Version_GetString :: "Version \<Rightarrow> string" where
  "Version_GetString [] = []"
| "Version_GetString [c] = string_of_nat c"
| "Version_GetString (c # cs) = string_of_nat c @ ''.'' @ Version_GetString cs"

text \<open>
  \<^verbatim>\<open>base::FilePath\<close> as the list of its components; the empty path is the empty list.
\<close>

type_synonym FilePath = "string list"

definition Append :: "FilePath \<Rightarrow> string \<Rightarrow> FilePath" where
  "Append p c = p @ [c]"

definition AddExtension :: "FilePath \<Rightarrow> string \<Rightarrow> FilePath" where
  "AddExtension p ext = (if p = [] then [] else butlast p @ [last p @ ext])"

section \<open>Launch configuration (browseros\_server\_config)\<close>

record ServerPorts =
  cdp :: int
  mcp :: int
  extension :: int

record ServerPaths =
  exe :: FilePath
  fallback_exe :: FilePath
  resources :: FilePath
  fallback_resources :: FilePath
  execution :: FilePath

record ServerIdentity =
  install_id :: string
  browseros_version :: string
  chromium_version :: string

record ServerLaunchConfig =
  ports :: ServerPorts
  paths :: ServerPaths
  identity :: ServerIdentity
  allow_remote_in_mcp :: bool

definition ServerPorts_IsValid :: "ServerPorts \<Rightarrow> bool" where
  "ServerPorts_IsValid p = (cdp p > 0 \<and> mcp p > 0 \<and> extension p > 0)"

definition ServerPaths_IsValid :: "ServerPaths \<Rightarrow> bool" where
  "ServerPaths_IsValid p = (exe p \<noteq> [] \<and> execution p \<noteq> [])"

definition ServerLaunchConfig_IsValid :: "ServerLaunchConfig \<Rightarrow> bool" where
  "ServerLaunchConfig_IsValid c = (ServerPorts_IsValid (ports c) \<and> ServerPaths_IsValid (paths c))"

text \<open>
  A configuration whose three ports coincide, lie below 1024, and whose fallback
  executable is not set.
\<close>

definition shared_low_port_config :: ServerLaunchConfig where
  "shared_low_port_config =
     \<lparr> ports = \<lparr> cdp = 1, mcp = 1, extension = 1 \<rparr>,
       paths = \<lparr> exe = [''browseros_server''], fallback_exe = [], resources = [],
                 fallback_resources = [], execution = [''.browseros''] \<rparr>,
       identity = \<lparr> install_id = [], browseros_version = [], chromium_version = [] \<rparr>,
       allow_remote_in_mcp = False \<rparr>"

section \<open>Files, archives and signatures as the updater sees them\<close>

text \<open>
  The file system maps a path to a regular file with its contents or to a directory.
  \<^verbatim>\<open>std::string\<close> byte buffers are strings.
\<close>

datatype node = File string | Dir

type_synonym fs = "FilePath \<rightharpoonup> node"

text \<open>
  The calls below leave the repository: base64, BoringSSL's \<^verbatim>\<open>ED25519_verify\<close>, the
  ZIP reader, and the operating system's verdict on removing a tree or creating a
  directory. They are parameters of the model. \<open>unzip_entries\<close> gives, for the bytes of an
  archive, whether extraction succeeds and the entries written (all of them on success,
  those written before the failure otherwise).
\<close>

record host =
  Base64Decode :: "string \<Rightarrow> string option"
  ED25519_verify :: "string \<Rightarrow> string \<Rightarrow> string \<Rightarrow> int"
  can_delete_recursively :: "FilePath \<Rightarrow> bool"
  can_create_directory :: "FilePath \<Rightarrow> bool"
  unzip_entries :: "string \<Rightarrow> bool \<times> (FilePath \<times> node) list"

definition ED25519_PUBLIC_KEY_LEN :: nat where
  "ED25519_PUBLIC_KEY_LEN = 32"

definition ED25519_SIGNATURE_LEN :: nat where
  "ED25519_SIGNATURE_LEN = 64"

definition ReadFileToString :: "fs \<Rightarrow> FilePath \<Rightarrow> string option" where
  "ReadFileToString f p = (case f p of Some (File c) \<Rightarrow> Some c | _ \<Rightarrow> None)"

definition PathExists :: "fs \<Rightarrow> FilePath \<Rightarrow> bool" where
  "PathExists f p = (f p \<noteq> None)"

text \<open>
  \<^verbatim>\<open>base::DeleteFile\<close> is not recursive. The updater applies it to regular files, and
  ignores its result; a directory is left in place here.
\<close>

definition DeleteFile :: "fs \<Rightarrow> FilePath \<Rightarrow> fs" where
  "DeleteFile f p = (case f p of Some Dir \<Rightarrow> f | _ \<Rightarrow> f(p := None))"

definition DeletePathRecursively :: "host \<Rightarrow> fs \<Rightarrow> FilePath \<Rightarrow> bool \<times> fs" where
  "DeletePathRecursively e f p =
     (if can_delete_recursively e p then (True, (\<lambda>q. if prefix p q then None else f q))
      else (False, f))"

fun is_file :: "node option \<Rightarrow> bool" where
  "is_file (Some (File c)) = True"
| "is_file _ = False"

definition CreateDirectory :: "host \<Rightarrow> fs \<Rightarrow> FilePath \<Rightarrow> bool \<times> fs" where
  "CreateDirectory e f p =
     (if list_ex (\<lambda>q. is_file (f q)) (prefixes p) then (False, f)
      else if can_create_directory e p
        then (True, (\<lambda>q. if prefix q p then Some Dir else f q))
      else (False, f))"

definition Unzip :: "host \<Rightarrow> fs \<Rightarrow> FilePath \<Rightarrow> FilePath \<Rightarrow> bool \<times> fs" where
  "Unzip e f zip_path dest_dir =
     (case ReadFileToString f zip_path of
        None \<Rightarrow> (False, f)
      | Some content \<Rightarrow>
          (case unzip_entries e content of
             (ok, ents) \<Rightarrow> (ok, f ++ map_of (map (\<lambda>(rel, n). (dest_dir @ rel, n)) ents))))"

fun AsUTF8Unsafe :: "FilePath \<Rightarrow> string" where
  "AsUTF8Unsafe [] = []"
| "AsUTF8Unsafe [c] = c"
| "AsUTF8Unsafe (c # cs) = c @ ''/'' @ AsUTF8Unsafe cs"

subsection \<open>Signature verification and extraction (browseros\_server\_updater, file-local)\<close>

definition VerifyEd25519Signature :: "host \<Rightarrow> fs \<Rightarrow> FilePath \<Rightarrow> string \<Rightarrow> string \<Rightarrow> bool" where
  "VerifyEd25519Signature e f file_path signature_base64 public_key_base64 =
     (case Base64Decode e public_key_base64 of
        None \<Rightarrow> False
      | Some public_key_bytes \<Rightarrow>
          if length public_key_bytes \<noteq> ED25519_PUBLIC_KEY_LEN then False
          else
            (case Base64Decode e signature_base64 of
               None \<Rightarrow> False
             | Some signature_bytes \<Rightarrow>
                 if length signature_bytes \<noteq> ED25519_SIGNATURE_LEN then False
                 else
                   (case ReadFileToString f file_path of
                      None \<Rightarrow> False
                    | Some file_contents \<Rightarrow>
                        if ED25519_verify e file_contents signature_bytes public_key_bytes \<noteq> 1
                        then False
                        else True)))"

text \<open>\<^verbatim>\<open>ExtractZipFile\<close> returns the empty string on success, a message otherwise.\<close>

definition ExtractZipFile :: "host \<Rightarrow> fs \<Rightarrow> FilePath \<Rightarrow> FilePath \<Rightarrow> string \<times> fs" where
  "ExtractZipFile e f zip_path dest_dir =
     (case CreateDirectory e f dest_dir of
        (False, f1) \<Rightarrow>
          (''Failed to create destination directory: '' @ AsUTF8Unsafe dest_dir, f1)
      | (True, f1) \<Rightarrow>
          (case Unzip e f1 zip_path dest_dir of
             (False, f2) \<Rightarrow> (''Failed to extract ZIP file'', f2)
           | (True, f2) \<Rightarrow> ([], f2)))"

record VerifyExtractResult =
  success :: bool
  error :: string

text \<open>
  \<^verbatim>\<open>DoVerifyAndExtract\<close>; \<open>kServerUpdatePublicKey\<close> is the key compiled into the binary.
\<close>

definition DoVerifyAndExtract ::
  "host \<Rightarrow> string \<Rightarrow> fs \<Rightarrow> FilePath \<Rightarrow> string \<Rightarrow> FilePath \<Rightarrow> VerifyExtractResult \<times> fs" where
  "DoVerifyAndExtract e kServerUpdatePublicKey f zip_path signature dest_dir =
     (if \<not> VerifyEd25519Signature e f zip_path signature kServerUpdatePublicKey
      then (\<lparr> success = False, error = ''Signature verification failed'' \<rparr>,
            DeleteFile f zip_path)
      else
        (case (if PathExists f dest_dir then DeletePathRecursively e f dest_dir else (True, f)) of
           (False, f1) \<Rightarrow>
             (\<lparr> success = False, error = ''Failed to clean stale version directory'' \<rparr>,
              DeleteFile f1 zip_path)
         | (True, f1) \<Rightarrow>
             (case ExtractZipFile e f1 zip_path dest_dir of
                (extract_error, f2) \<Rightarrow>
                  if extract_error \<noteq> []
                  then (\<lparr> success = False, error = extract_error \<rparr>,
                        DeleteFile (snd (DeletePathRecursively e f2 dest_dir)) zip_path)
                  else (\<lparr> success = True, error = [] \<rparr>, DeleteFile f2 zip_path))))"

text \<open>
  A small world to run the step in. The host decodes three base64 strings (a 32-byte key,
  a 64-byte signature, a 5-byte string), accepts a signature exactly over the archive
  bytes \<open>PK\<close>, and unpacks every archive into the server's resource tree.
\<close>

definition sample_host :: host where
  "sample_host =
     \<lparr> Base64Decode =
         (\<lambda>s. if s = ''a2V5'' then Some (replicate 32 (CHR ''k''))
              else if s = ''c2ln'' then Some (replicate 64 (CHR ''s''))
              else if s = ''c2hvcnQ='' then Some ''short''
              else None),
       ED25519_verify = (\<lambda>m s k. if m = ''PK'' then 1 else 0),
       can_delete_recursively = (\<lambda>p. True), can_create_directory = (\<lambda>p. True),
       unzip_entries =
         (\<lambda>b. (True, [([''resources''], Dir), ([''resources'', ''bin''], Dir),
                      ([''resources'', ''bin'', ''browseros_server''], File ''ELF'')])) \<rparr>"

definition zip_1_3_0 :: FilePath where
  "zip_1_3_0 = [''.browseros'', ''pending'', ''download.zip'']"

definition dir_1_3_0 :: FilePath where
  "dir_1_3_0 = [''.browseros'', ''versions'', ''1.3.0'']"

definition stale_fs :: fs where
  "stale_fs = [zip_1_3_0 \<mapsto> File ''PK'', dir_1_3_0 \<mapsto> Dir]"

definition fresh_fs :: fs where
  "fresh_fs = [zip_1_3_0 \<mapsto> File ''PK'']"

definition tampered_fs :: fs where
  "tampered_fs = [zip_1_3_0 \<mapsto> File ''XX'']"

section \<open>The updater (browseros\_server\_updater)\<close>

datatype State = kIdle | kFetchingAppcast | kDownloading | kVerifying | kExtracting | kTesting

record AppcastEnclosure =
  enc_url :: string
  enc_os :: string
  enc_arch :: string
  enc_signature :: string
  enc_length :: int

record AppcastItem =
  version :: Version
  enclosures :: "AppcastEnclosure list"

definition AppcastItem_default :: AppcastItem where
  "AppcastItem_default = \<lparr> version = [], enclosures = [] \<rparr>"

text \<open>\<^verbatim>\<open>base::Value\<close>, as \<^verbatim>\<open>JSONReader::Read\<close> returns it, and \<^verbatim>\<open>Dict::FindBool\<close>.\<close>

datatype Value =
    NONE_value
  | BOOLEAN bool
  | INTEGER int
  | STRING string
  | LIST "Value list"
  | DICT "(string \<times> Value) list"

definition FindBool :: "(string \<times> Value) list \<Rightarrow> string \<Rightarrow> bool option" where
  "FindBool d k = (case map_of d k of Some (BOOLEAN b) \<Rightarrow> Some b | _ \<Rightarrow> None)"

text \<open>
  What the updater reads from the browser process and from the manager that owns it:
  the user data directory, the manager's bundled paths and MCP port, the platform, the
  \<^verbatim>\<open>--browseros-server-appcast-url\<close> switch, the alpha feature bit, the two feed
  constants, \<^verbatim>\<open>GURL::is_valid\<close>, whether local state prefs exist, the JSON reader,
  and the \<^verbatim>\<open>base::Version\<close> string constructor and whitespace trimming.
\<close>

record env =
  user_data_dir :: "FilePath option"
  manager_executable_path :: FilePath
  manager_resources_path :: FilePath
  manager_mcp_port :: int
  is_win :: bool
  appcast_url_switch :: "string option"
  alpha_features :: bool
  kDefaultAppcastUrl :: string
  kAlphaAppcastUrl :: string
  url_is_valid :: "string \<Rightarrow> bool"
  has_local_state :: bool
  JSONReader_Read :: "string \<Rightarrow> Value option"
  Version_of_string :: "string \<Rightarrow> Version"
  TrimWhitespaceASCII :: "string \<Rightarrow> string"

text \<open>
  Modelled from the spec: the header \<^verbatim>\<open>browseros_server_constants.h\<close> is not among the
  sources; the names below are those of the on-disk layout the spec gives
  (\<^verbatim>\<open>current_version\<close>, \<^verbatim>\<open>versions/\<close>, \<^verbatim>\<open>pending/download.zip\<close>).
\<close>

definition kCurrentVersionFileName :: string where
  "kCurrentVersionFileName = ''current_version''"

definition kVersionsDirectoryName :: string where
  "kVersionsDirectoryName = ''versions''"

definition kPendingUpdateDirectoryName :: string where
  "kPendingUpdateDirectoryName = ''pending''"

definition kDownloadFileName :: string where
  "kDownloadFileName = ''download.zip''"

definition kServerVersion :: string where
  "kServerVersion = ''browseros.server.version''"

text \<open>
  Closures posted to the thread pool, and the updater's other outward actions, in the
  order the code issues them.
\<close>

datatype task =
    Task_DeletePathRecursively FilePath
  | Task_DeletePathRecursively_if_exists FilePath
  | Task_WriteFile FilePath string
  | Task_DeleteFile FilePath
  | Task_ReadVersionFile FilePath
  | Task_RunBinaryVersionCheck FilePath

datatype effect =
    Metrics_Log string "(string \<times> string) list"
  | PostTask task
  | Prefs_SetString string string
  | Appcast_DownloadToString string
  | Status_DownloadToString string
  | Manager_RestartServerForUpdate Version Version

text \<open>
  The members of \<^verbatim>\<open>BrowserOSServerUpdater\<close>, named as in the class without the
  trailing underscore, and the log of outward actions.
\<close>

record Updater =
  update_check_timer_running :: bool
  state :: State
  update_in_progress :: bool
  appcast_loader :: "string option"
  download_loader :: "string option"
  status_loader :: "string option"
  pending_item :: AppcastItem
  pending_signature :: string
  cached_bundled_version :: Version
  cached_downloaded_version :: Version
  bundled_version_loaded :: bool
  downloaded_version_loaded :: bool
  effects :: "effect list"

definition Updater_new :: Updater where
  "Updater_new =
     \<lparr> update_check_timer_running = False, state = kIdle, update_in_progress = False,
       appcast_loader = None, download_loader = None, status_loader = None,
       pending_item = AppcastItem_default, pending_signature = [],
       cached_bundled_version = [], cached_downloaded_version = [],
       bundled_version_loaded = False, downloaded_version_loaded = False,
       effects = [] \<rparr>"

definition emit :: "effect \<Rightarrow> Updater \<Rightarrow> Updater" where
  "emit x u = u\<lparr> effects := effects u @ [x] \<rparr>"

subsection \<open>Paths\<close>

definition GetExecutionDir :: "env \<Rightarrow> FilePath" where
  "GetExecutionDir e = (case user_data_dir e of None \<Rightarrow> [] | Some d \<Rightarrow> Append d ''.browseros'')"

definition GetVersionsDir :: "env \<Rightarrow> FilePath" where
  "GetVersionsDir e = Append (GetExecutionDir e) kVersionsDirectoryName"

definition GetVersionDir :: "env \<Rightarrow> Version \<Rightarrow> FilePath" where
  "GetVersionDir e v = Append (GetVersionsDir e) (Version_GetString v)"

definition GetPendingUpdateDir :: "env \<Rightarrow> FilePath" where
  "GetPendingUpdateDir e = Append (GetExecutionDir e) kPendingUpdateDirectoryName"

definition GetBundledBinaryPath :: "env \<Rightarrow> FilePath" where
  "GetBundledBinaryPath e = manager_executable_path e"

definition GetBundledResourcesPath :: "env \<Rightarrow> FilePath" where
  "GetBundledResourcesPath e = manager_resources_path e"

definition GetDownloadedBinaryPath :: "env \<Rightarrow> Version \<Rightarrow> FilePath" where
  "GetDownloadedBinaryPath e v =
     (let binary = Append (Append (Append (GetVersionDir e v) ''resources'') ''bin'')
                     ''browseros_server''
      in if is_win e then AddExtension binary ''.exe'' else binary)"

definition GetDownloadedResourcesPath :: "env \<Rightarrow> Version \<Rightarrow> FilePath" where
  "GetDownloadedResourcesPath e v = Append (GetVersionDir e v) ''resources''"

definition GetBestServerBinaryPath :: "env \<Rightarrow> Updater \<Rightarrow> FilePath" where
  "GetBestServerBinaryPath e u =
     (let downloaded = cached_downloaded_version u;
          bundled = cached_bundled_version u
      in if Version_IsValid downloaded \<and> (\<not> Version_IsValid bundled \<or> Version_gt downloaded bundled)
         then GetDownloadedBinaryPath e downloaded
         else GetBundledBinaryPath e)"

definition GetBestServerResourcesPath :: "env \<Rightarrow> Updater \<Rightarrow> FilePath" where
  "GetBestServerResourcesPath e u =
     (let downloaded = cached_downloaded_version u;
          bundled = cached_bundled_version u
      in if Version_IsValid downloaded \<and> (\<not> Version_IsValid bundled \<or> Version_gt downloaded bundled)
         then GetDownloadedResourcesPath e downloaded
         else GetBundledResourcesPath e)"

subsection \<open>Version cache\<close>

definition GetLatestDownloadedVersion :: "Updater \<Rightarrow> Version" where
  "GetLatestDownloadedVersion u = cached_downloaded_version u"

definition GetBundledVersion :: "Updater \<Rightarrow> Version" where
  "GetBundledVersion u = cached_bundled_version u"

definition GetCurrentVersion :: "Updater \<Rightarrow> Version" where
  "GetCurrentVersion u =
     (let downloaded = GetLatestDownloadedVersion u;
          bundled = GetBundledVersion u
      in if Version_IsValid downloaded \<and> (\<not> Version_IsValid bundled \<or> Version_gt downloaded bundled)
         then downloaded else bundled)"

text \<open>
  The version cache as the spec describes it, a pair of optional versions, and the order
  on optional versions in which an absent version is below every present one.
\<close>

definition cache_entry :: "Version \<Rightarrow> Version option" where
  "cache_entry v = (if Version_IsValid v then Some v else None)"

fun optional_version_gt :: "Version option \<Rightarrow> Version option \<Rightarrow> bool" where
  "optional_version_gt None b = False"
| "optional_version_gt (Some d) None = True"
| "optional_version_gt (Some d) (Some b) = Version_gt d b"

definition WriteCurrentVersionFile :: "env \<Rightarrow> Updater \<Rightarrow> Version \<Rightarrow> Updater" where
  "WriteCurrentVersionFile e u v =
     (let u1 = u\<lparr> cached_downloaded_version := v \<rparr>;
          pref_version =
            (if Version_IsValid v then Version_GetString v
             else if Version_IsValid (cached_bundled_version u1)
               then Version_GetString (cached_bundled_version u1)
             else []);
          u2 = (if has_local_state e then emit (Prefs_SetString kServerVersion pref_version) u1
                else u1);
          version_file = Append (GetExecutionDir e) kCurrentVersionFileName
      in if Version_IsValid v
         then emit (PostTask (Task_WriteFile version_file (Version_GetString v))) u2
         else emit (PostTask (Task_DeleteFile version_file)) u2)"

subsection \<open>Errors and reset\<close>

definition ResetState :: "Updater \<Rightarrow> Updater" where
  "ResetState u =
     u\<lparr> state := kIdle, update_in_progress := False, appcast_loader := None,
        download_loader := None, status_loader := None,
        pending_item := AppcastItem_default, pending_signature := [] \<rparr>"

definition CleanupPendingUpdate :: "env \<Rightarrow> Updater \<Rightarrow> Updater" where
  "CleanupPendingUpdate e u =
     emit (PostTask (Task_DeletePathRecursively_if_exists (GetPendingUpdateDir e))) u"

definition OnError :: "env \<Rightarrow> Updater \<Rightarrow> string \<Rightarrow> string \<Rightarrow> Updater" where
  "OnError e u stage err =
     (let props = [(''stage'', stage), (''error'', err)]
                  @ (if Version_IsValid (version (pending_item u))
                     then [(''version'', Version_GetString (version (pending_item u)))]
                     else []);
          u1 = emit (Metrics_Log ''server.ota.error'' props) u;
          u2 = (if Version_IsValid (version (pending_item u1))
                   \<and> (stage = ''test'' \<or> stage = ''hotswap'')
                then emit (PostTask (Task_DeletePathRecursively_if_exists
                             (GetVersionDir e (version (pending_item u1))))) u1
                else u1)
      in ResetState (CleanupPendingUpdate e u2))"

subsection \<open>Checking for an update\<close>

definition FetchAppcast :: "env \<Rightarrow> Updater \<Rightarrow> Updater" where
  "FetchAppcast e u =
     (let u1 = u\<lparr> state := kFetchingAppcast, update_in_progress := True \<rparr>;
          appcast_url =
            (case appcast_url_switch e of
               Some switch_value \<Rightarrow> switch_value
             | None \<Rightarrow> if alpha_features e then kAlphaAppcastUrl e else kDefaultAppcastUrl e)
      in if \<not> url_is_valid e appcast_url
         then OnError e u1 ''check'' (''Invalid appcast URL: '' @ appcast_url)
         else emit (Appcast_DownloadToString appcast_url)
                (u1\<lparr> appcast_loader := Some appcast_url \<rparr>))"

definition CheckNow :: "env \<Rightarrow> Updater \<Rightarrow> Updater" where
  "CheckNow e u =
     (if \<not> bundled_version_loaded u \<or> \<not> downloaded_version_loaded u then u
      else if update_in_progress u then u
      else FetchAppcast e u)"

definition OnUpdateTimer :: "env \<Rightarrow> Updater \<Rightarrow> Updater" where
  "OnUpdateTimer e u = CheckNow e u"

definition CheckVersionCachesAndStart :: "env \<Rightarrow> Updater \<Rightarrow> Updater" where
  "CheckVersionCachesAndStart e u =
     (if \<not> bundled_version_loaded u \<or> \<not> downloaded_version_loaded u then u
      else
        (let current = GetCurrentVersion u;
             u1 = (if Version_IsValid current \<and> has_local_state e
                   then emit (Prefs_SetString kServerVersion (Version_GetString current)) u
                   else u)
         in CheckNow e u1))"

definition OnDownloadedVersionLoaded :: "env \<Rightarrow> Updater \<Rightarrow> string \<Rightarrow> Updater" where
  "OnDownloadedVersionLoaded e u version_str =
     (let u1 = (if version_str \<noteq> []
                then u\<lparr> cached_downloaded_version := Version_of_string e version_str \<rparr>
                else u);
          u2 = u1\<lparr> downloaded_version_loaded := True \<rparr>
      in CheckVersionCachesAndStart e u2)"

definition OnBundledVersionLoaded :: "env \<Rightarrow> Updater \<Rightarrow> int \<Rightarrow> string \<Rightarrow> Updater" where
  "OnBundledVersionLoaded e u exit_code output =
     (let u1 = (if exit_code = 0 \<and> output \<noteq> []
                then u\<lparr> cached_bundled_version :=
                          Version_of_string e (TrimWhitespaceASCII e output) \<rparr>
                else u);
          u2 = u1\<lparr> bundled_version_loaded := True \<rparr>
      in CheckVersionCachesAndStart e u2)"

definition LoadVersionCachesAsync :: "env \<Rightarrow> Updater \<Rightarrow> Updater" where
  "LoadVersionCachesAsync e u =
     emit (PostTask (Task_RunBinaryVersionCheck (GetBundledBinaryPath e)))
       (emit (PostTask (Task_ReadVersionFile (Append (GetExecutionDir e) kCurrentVersionFileName)))
          u)"

definition Start :: "env \<Rightarrow> Updater \<Rightarrow> Updater" where
  "Start e u = (LoadVersionCachesAsync e u)\<lparr> update_check_timer_running := True \<rparr>"

definition Stop :: "Updater \<Rightarrow> Updater" where
  "Stop u =
     ResetState (u\<lparr> update_check_timer_running := False, appcast_loader := None,
                   download_loader := None, status_loader := None \<rparr>)"

subsection \<open>Smoke test, status gate and hot-swap\<close>

definition CheckServerStatus :: "env \<Rightarrow> Updater \<Rightarrow> Updater" where
  "CheckServerStatus e u =
     (let status_url = ''http://127.0.0.1:'' @ NumberToString (manager_mcp_port e) @ ''/status''
      in emit (Status_DownloadToString status_url) (u\<lparr> status_loader := Some status_url \<rparr>))"

definition OnBinaryTestComplete :: "env \<Rightarrow> Updater \<Rightarrow> Version \<Rightarrow> int \<Rightarrow> string \<Rightarrow> Updater" where
  "OnBinaryTestComplete e u v exit_code output =
     (if exit_code \<noteq> 0
      then OnError e (emit (PostTask (Task_DeletePathRecursively (GetVersionDir e v))) u)
             ''verify'' ''Binary --version check failed''
      else CheckServerStatus e u)"

definition PerformHotSwap :: "env \<Rightarrow> Updater \<Rightarrow> Version \<Rightarrow> Updater" where
  "PerformHotSwap e u v =
     (let old_version = GetCurrentVersion u;
          u1 = WriteCurrentVersionFile e u v
      in emit (Manager_RestartServerForUpdate old_version v) u1)"

definition OnServerStatusChecked :: "env \<Rightarrow> Updater \<Rightarrow> bool \<Rightarrow> Updater" where
  "OnServerStatusChecked e u can_update =
     (if \<not> can_update
      then ResetState
             (emit (Metrics_Log ''server.ota.busy''
                      [(''pending_version'', Version_GetString (version (pending_item u)))]) u)
      else PerformHotSwap e u (version (pending_item u)))"

text \<open>The response is \<open>None\<close> when the loader hands back a null pointer.\<close>

definition OnStatusFetched :: "env \<Rightarrow> Updater \<Rightarrow> string option \<Rightarrow> Updater" where
  "OnStatusFetched e u response =
     (case response of
        None \<Rightarrow> OnServerStatusChecked e u True
      | Some body \<Rightarrow>
          (case JSONReader_Read e body of
             Some (DICT dict) \<Rightarrow>
               (case FindBool dict ''can_update'' of
                  None \<Rightarrow> OnServerStatusChecked e u True
                | Some can_update \<Rightarrow> OnServerStatusChecked e u can_update)
           | _ \<Rightarrow> OnServerStatusChecked e u True))"

subsection \<open>A concrete updater to run the functions on\<close>

text \<open>Three bodies of the sidecar's \<^verbatim>\<open>/status\<close> answer.\<close>

definition status_busy :: string where
  "status_busy = ''{ can_update: false }''"

definition status_ready :: string where
  "status_ready = ''{ can_update: true }''"

definition status_mistyped :: string where
  "status_mistyped = ''{ can_update: no }''"

definition test_env :: env where
  "test_env =
     \<lparr> user_data_dir = Some [''profile''],
       manager_executable_path = [''app'', ''bin'', ''browseros_server''],
       manager_resources_path = [''app'', ''resources''],
       manager_mcp_port = 9100, is_win = False, appcast_url_switch = None,
       alpha_features = False, kDefaultAppcastUrl = ''https://cdn/appcast.xml'',
       kAlphaAppcastUrl = ''https://cdn/appcast.alpha.xml'', url_is_valid = (\<lambda>s. s \<noteq> []),
       has_local_state = True,
       JSONReader_Read =
         (\<lambda>s. if s = status_busy then Some (DICT [(''can_update'', BOOLEAN False)])
              else if s = status_ready then Some (DICT [(''can_update'', BOOLEAN True)])
              else if s = status_mistyped then Some (DICT [(''can_update'', STRING ''no'')])
              else if s = ''{}'' then Some (DICT [])
              else if s = ''[]'' then Some (LIST [])
              else None),
       Version_of_string = (\<lambda>s. if s = ''1.0.0'' then [1, 0, 0] else []),
       TrimWhitespaceASCII = (\<lambda>s. s) \<rparr>"

text \<open>An updater with both caches loaded (bundled 1.0.0) that is testing 1.2.0.\<close>

definition testing_1_2_0 :: Updater where
  "testing_1_2_0 =
     Updater_new\<lparr> update_check_timer_running := True, state := kTesting,
                  update_in_progress := True,
                  pending_item := \<lparr> version = [1, 2, 0], enclosures = [] \<rparr>,
                  pending_signature := ''c2ln'', cached_bundled_version := [1, 0, 0],
                  bundled_version_loaded := True, downloaded_version_loaded := True \<rparr>"

section \<open>The supervisor (browseros\_server\_manager)\<close>

text \<open>
  Modelled from the spec: the implementation file \<^verbatim>\<open>browseros_server_manager.cc\<close> is
  not among the sources; its unit tests, the collaborator interfaces and the preference
  defaults are. The definitions of this section follow section 4.8 of the spec (start
  sequence, health loop, \<^verbatim>\<open>RestartServerForUpdate\<close>) and section 4.6 (port prober), with
  the accessor names the unit tests use. Restarts are modelled as completing within the
  call that triggers them, except the update-driven one, whose launch is a second step.
\<close>

record ServerState =
  pid :: nat
  creation_time :: nat

record LaunchResult =
  launched :: "ServerState option"
  used_fallback :: bool

datatype call =
    StateStore_Read
  | StateStore_Write ServerState
  | StateStore_Delete
  | ProcessController_Terminate nat bool
  | ProcessController_Launch ServerLaunchConfig
  | PortProber_ResolveAll ServerPorts
  | Prefs_SavePorts ServerPorts
  | Updater_InvalidateDownloadedVersion
  | Updater_Start
  | Updater_Stop

record deps =
  lock_acquired :: bool
  is_port_bindable :: "int \<Rightarrow> bool"
  launch_outcome :: "ServerLaunchConfig \<Rightarrow> LaunchResult"
  best_binary_path :: FilePath
  best_resources_path :: FilePath
  bundled_binary_path :: FilePath
  bundled_resources_path :: FilePath
  execution_dir :: FilePath
  server_identity :: ServerIdentity

record Supervisor =
  is_running :: bool
  is_restarting :: bool
  consecutive_health_check_failures :: nat
  last_restart_revalidated_all_ports :: bool
  server_ports :: ServerPorts
  allow_remote :: bool
  process :: "ServerState option"
  health_check_timer_running :: bool
  update_restart_pending :: bool
  pref_ports :: ServerPorts
  state_file :: "ServerState option"
  process_table :: "nat \<rightharpoonup> nat"
  calls :: "call list"

definition did :: "call \<Rightarrow> Supervisor \<Rightarrow> Supervisor" where
  "did c s = s\<lparr> calls := calls s @ [c] \<rparr>"

definition kDefaultCDPPort :: int where
  "kDefaultCDPPort = 9000"

definition kDefaultMCPPort :: int where
  "kDefaultMCPPort = 9100"

definition kDefaultExtensionPort :: int where
  "kDefaultExtensionPort = 9300"

definition default_ports :: ServerPorts where
  "default_ports =
     \<lparr> cdp = kDefaultCDPPort, mcp = kDefaultMCPPort, extension = kDefaultExtensionPort \<rparr>"

subsection \<open>Port prober\<close>

definition is_port_available :: "deps \<Rightarrow> int \<Rightarrow> bool" where
  "is_port_available d p = (if p \<le> 1023 \<or> p < 1 \<or> p > 65535 then False else is_port_bindable d p)"

function find_available :: "deps \<Rightarrow> int \<Rightarrow> int list \<Rightarrow> int" where
  "find_available d start excluded =
     (if start > 65535 then 0
      else if start \<notin> set excluded \<and> is_port_available d start then start
      else find_available d (start + 1) excluded)"
  by pat_completeness auto
termination
  by (relation "measure (\<lambda>(d, start, excluded). nat (65536 - start))") auto

declare find_available.simps [simp del]

definition ResolvePorts :: "deps \<Rightarrow> ServerPorts \<Rightarrow> ServerPorts" where
  "ResolvePorts d wanted =
     (let c = find_available d (cdp wanted) [];
          m = find_available d (mcp wanted) [c];
          x = find_available d (extension wanted) [c, m]
      in \<lparr> cdp = c, mcp = m, extension = x \<rparr>)"

subsection \<open>Launch, terminate, restart\<close>

definition BuildLaunchConfig :: "deps \<Rightarrow> Supervisor \<Rightarrow> ServerLaunchConfig" where
  "BuildLaunchConfig d s =
     \<lparr> ports = server_ports s,
       paths = \<lparr> exe = best_binary_path d, fallback_exe = bundled_binary_path d,
                 resources = best_resources_path d,
                 fallback_resources = bundled_resources_path d,
                 execution = execution_dir d \<rparr>,
       identity = server_identity d,
       allow_remote_in_mcp = allow_remote s \<rparr>"

definition LaunchAndRecord :: "deps \<Rightarrow> Supervisor \<Rightarrow> Supervisor" where
  "LaunchAndRecord d s =
     (let config = BuildLaunchConfig d s;
          r = launch_outcome d config;
          s1 = did (ProcessController_Launch config) s;
          s2 = (if used_fallback r then did Updater_InvalidateDownloadedVersion s1 else s1)
      in case launched r of
           None \<Rightarrow> s2\<lparr> process := None \<rparr>
         | Some st \<Rightarrow>
             (did (StateStore_Write st) s2)
               \<lparr> process := Some st, state_file := Some st,
                 process_table := (process_table s2)(pid st \<mapsto> creation_time st) \<rparr>)"

definition TerminateCurrent :: "bool \<Rightarrow> Supervisor \<Rightarrow> Supervisor" where
  "TerminateCurrent force s =
     (case process s of
        None \<Rightarrow> s
      | Some st \<Rightarrow>
          (did (ProcessController_Terminate (pid st) force) s)
            \<lparr> process := None, process_table := (process_table s)(pid st := None) \<rparr>)"

definition ResolveAndSavePorts :: "deps \<Rightarrow> ServerPorts \<Rightarrow> Supervisor \<Rightarrow> Supervisor" where
  "ResolveAndSavePorts d wanted s =
     (let resolved = ResolvePorts d wanted
      in (did (Prefs_SavePorts resolved) (did (PortProber_ResolveAll wanted) s))
           \<lparr> server_ports := resolved, pref_ports := resolved \<rparr>)"

definition TargetedRestart :: "deps \<Rightarrow> Supervisor \<Rightarrow> Supervisor" where
  "TargetedRestart d s =
     LaunchAndRecord d
       ((TerminateCurrent False s)\<lparr> last_restart_revalidated_all_ports := False \<rparr>)"

definition FullRevalidationRestart :: "deps \<Rightarrow> Supervisor \<Rightarrow> Supervisor" where
  "FullRevalidationRestart d s =
     LaunchAndRecord d
       ((ResolveAndSavePorts d default_ports (TerminateCurrent False s))
          \<lparr> last_restart_revalidated_all_ports := True \<rparr>)"

subsection \<open>Health loop\<close>

definition OnHealthCheckComplete :: "deps \<Rightarrow> Supervisor \<Rightarrow> bool \<Rightarrow> Supervisor" where
  "OnHealthCheckComplete d s ok =
     (if \<not> is_running s then s
      else if ok then s\<lparr> consecutive_health_check_failures := 0 \<rparr>
      else
        (let s1 = s\<lparr> consecutive_health_check_failures :=
                       consecutive_health_check_failures s + 1 \<rparr>
         in if consecutive_health_check_failures s1 < 3 then TargetedRestart d s1
            else if consecutive_health_check_failures s1 = 3
              then (FullRevalidationRestart d s1)\<lparr> consecutive_health_check_failures := 0 \<rparr>
            else s1))"

fun health_results :: "deps \<Rightarrow> Supervisor \<Rightarrow> bool list \<Rightarrow> Supervisor" where
  "health_results d s [] = s"
| "health_results d s (r # rs) = health_results d (OnHealthCheckComplete d s r) rs"

definition GetConsecutiveHealthCheckFailures :: "Supervisor \<Rightarrow> nat" where
  "GetConsecutiveHealthCheckFailures s = consecutive_health_check_failures s"

definition DidLastRestartRevalidateAllPorts :: "Supervisor \<Rightarrow> bool" where
  "DidLastRestartRevalidateAllPorts s = last_restart_revalidated_all_ports s"

text \<open>
  What a run of the supervisor asked of its collaborators: the port triples handed to the
  port prober for resolution, and the port triples of the configurations handed to the
  process controller, each in call order.
\<close>

fun resolve_requests :: "call list \<Rightarrow> ServerPorts list" where
  "resolve_requests [] = []"
| "resolve_requests (PortProber_ResolveAll wanted # cs) = wanted # resolve_requests cs"
| "resolve_requests (c # cs) = resolve_requests cs"

fun launched_ports :: "call list \<Rightarrow> ServerPorts list" where
  "launched_ports [] = []"
| "launched_ports (ProcessController_Launch config # cs) = ports config # launched_ports cs"
| "launched_ports (c # cs) = launched_ports cs"

subsection \<open>Update-driven restart\<close>

text \<open>
  The callback's argument is returned when the call runs the callback before returning,
  \<open>None\<close> when the callback is still pending.
\<close>

definition RestartServerForUpdate :: "deps \<Rightarrow> Supervisor \<Rightarrow> Supervisor \<times> bool option" where
  "RestartServerForUpdate d s =
     (if is_restarting s then (s, Some False)
      else ((TerminateCurrent False
               (s\<lparr> is_restarting := True, health_check_timer_running := False,
                   update_restart_pending := True \<rparr>)),
            None))"

definition OnUpdateRestartLaunch :: "deps \<Rightarrow> Supervisor \<Rightarrow> Supervisor \<times> bool option" where
  "OnUpdateRestartLaunch d s =
     (if \<not> update_restart_pending s then (s, None)
      else
        (let s1 = LaunchAndRecord d s;
             s2 = s1\<lparr> is_restarting := False, update_restart_pending := False \<rparr>
         in case process s1 of
              None \<Rightarrow> (s2, Some False)
            | Some st \<Rightarrow> (s2\<lparr> health_check_timer_running := is_running s2 \<rparr>, Some True)))"

subsection \<open>Start: orphan recovery\<close>

text \<open>
  Modelled from the spec: step 2 of the start sequence of section 4.8 (the manager's
  implementation is not among the sources). The state is read; a live process with the
  recorded PID and creation time is terminated by force; the state file is deleted in all
  cases.
\<close>

definition RecoverFromOrphan :: "Supervisor \<Rightarrow> Supervisor" where
  "RecoverFromOrphan s =
     (let s1 = did StateStore_Read s;
          s2 = (case state_file s1 of
                  None \<Rightarrow> s1
                | Some st \<Rightarrow>
                    if process_table s1 (pid st) = Some (creation_time st)
                    then (did (ProcessController_Terminate (pid st) True) s1)
                           \<lparr> process_table := (process_table s1)(pid st := None) \<rparr>
                    else s1)
      in (did StateStore_Delete s2)\<lparr> state_file := None \<rparr>)"

definition Supervisor_Start :: "deps \<Rightarrow> Supervisor \<Rightarrow> Supervisor" where
  "Supervisor_Start d s =
     (if \<not> lock_acquired d then s
      else
        (let s1 = RecoverFromOrphan s;
             s2 = ResolveAndSavePorts d (pref_ports s1) s1;
             s3 = LaunchAndRecord d s2
         in (did Updater_Start s3)
              \<lparr> is_running := True, health_check_timer_running := True \<rparr>))"

subsection \<open>A concrete supervisor to run the functions on\<close>

definition Supervisor_new :: Supervisor where
  "Supervisor_new =
     \<lparr> is_running = False, is_restarting = False, consecutive_health_check_failures = 0,
       last_restart_revalidated_all_ports = False,
       server_ports = \<lparr> cdp = 0, mcp = 0, extension = 0 \<rparr>, allow_remote = False,
       process = None, health_check_timer_running = False, update_restart_pending = False,
       pref_ports = default_ports, state_file = None, process_table = Map.empty,
       calls = [] \<rparr>"

definition test_deps :: deps where
  "test_deps =
     \<lparr> lock_acquired = True, is_port_bindable = (\<lambda>p. True),
       launch_outcome = (\<lambda>c. \<lparr> launched = Some \<lparr> pid = 4242, creation_time = 1 \<rparr>,
                                 used_fallback = False \<rparr>),
       best_binary_path = [''fake'', ''path'', ''browseros_server''],
       best_resources_path = [''fake'', ''path'', ''resources''],
       bundled_binary_path = [''fake'', ''path'', ''browseros_server''],
       bundled_resources_path = [''fake'', ''path'', ''resources''],
       execution_dir = [''profile'', ''.browseros''],
       server_identity = \<lparr> install_id = [], browseros_version = [], chromium_version = [] \<rparr> \<rparr>"

definition started :: Supervisor where
  "started = Supervisor_Start test_deps Supervisor_new"

text \<open>
  A supervisor started with the ports 8000, 8100 and 8300 in the preferences, and
  collaborators for which port 9100 is held by another process.
\<close>

definition started_on_8000 :: Supervisor where
  "started_on_8000 =
     Supervisor_Start test_deps
       (Supervisor_new\<lparr> pref_ports := \<lparr> cdp = 8000, mcp = 8100, extension = 8300 \<rparr> \<rparr>)"

definition busy_9100_deps :: deps where
  "busy_9100_deps = test_deps\<lparr> is_port_bindable := (\<lambda>p. p \<noteq> 9100) \<rparr>"

text \<open>
  The disk and process table of an application that crashed: the state file names
  process 12345 created at 777. In the first the process is still alive, in the second
  PID 12345 belongs to a process created later.
\<close>

definition crashed_with_orphan :: Supervisor where
  "crashed_with_orphan =
     Supervisor_new\<lparr> state_file := Some \<lparr> pid = 12345, creation_time = 777 \<rparr>,
                     process_table := [12345 \<mapsto> 777] \<rparr>"

definition crashed_pid_reused :: Supervisor where
  "crashed_pid_reused =
     Supervisor_new\<lparr> state_file := Some \<lparr> pid = 12345, creation_time = 777 \<rparr>,
                     process_table := [12345 \<mapsto> 900] \<rparr>"

section \<open>Evaluation lemmas\<close>

lemmas string_eval = string_of_nat.simps digit_char_def NumberToString_def

lemmas path_eval = GetVersionDir_def GetVersionsDir_def GetExecutionDir_def
  GetPendingUpdateDir_def Append_def kVersionsDirectoryName_def
  kPendingUpdateDirectoryName_def kCurrentVersionFileName_def

lemmas world_eval = sample_host_def zip_1_3_0_def dir_1_3_0_def stale_fs_def fresh_fs_def
  tampered_fs_def

lemmas verify_eval = VerifyEd25519Signature_def ED25519_PUBLIC_KEY_LEN_def
  ED25519_SIGNATURE_LEN_def ReadFileToString_def

section \<open>Properties of the launch configuration\<close>

text \<open>
  C9. \<^verbatim>\<open>ServerLaunchConfig::IsValid\<close> holds exactly when the three ports are positive
  and the \<^verbatim>\<open>exe\<close> and \<^verbatim>\<open>execution\<close> paths are non-empty. It asks for nothing more:
  a configuration with one port shared by all three endpoints, below 1024, and with no
  fallback executable is valid.
\<close>

theorem launch_config_valid_iff:
  "(\<forall>c. ServerLaunchConfig_IsValid c =
      (cdp (ports c) > 0 \<and> mcp (ports c) > 0 \<and> extension (ports c) > 0
       \<and> exe (paths c) \<noteq> [] \<and> execution (paths c) \<noteq> []))
   \<and> ServerLaunchConfig_IsValid shared_low_port_config
   \<and> cdp (ports shared_low_port_config) = mcp (ports shared_low_port_config)
   \<and> mcp (ports shared_low_port_config) = extension (ports shared_low_port_config)
   \<and> cdp (ports shared_low_port_config) < 1024
   \<and> fallback_exe (paths shared_low_port_config) = []"
  by (simp add: ServerLaunchConfig_IsValid_def ServerPorts_IsValid_def ServerPaths_IsValid_def
      shared_low_port_config_def)

section \<open>Properties of signature verification and extraction\<close>

text \<open>
  C7. \<^verbatim>\<open>VerifyEd25519Signature\<close> returns true exactly when the key decodes to 32 bytes,
  the signature decodes to 64 bytes, the file can be read, and \<^verbatim>\<open>ED25519_verify\<close>
  answers 1 on the file's bytes. Any decode failure, wrong length, unreadable file or
  failed verification therefore yields false.
\<close>

theorem verify_ed25519_true_iff:
  "VerifyEd25519Signature e f file_path signature_base64 public_key_base64 =
     (\<exists>pk sg msg.
        Base64Decode e public_key_base64 = Some pk \<and> length pk = 32
        \<and> Base64Decode e signature_base64 = Some sg \<and> length sg = 64
        \<and> ReadFileToString f file_path = Some msg
        \<and> ED25519_verify e msg sg pk = 1)"
  by (auto simp: verify_eval split: option.splits)

text \<open>
  On the sample host: the good key and signature over the archive verify; an undecodable
  key, an undecodable signature, a 5-byte key, a 5-byte signature, a path that is not a
  readable file, and an archive with other bytes do not.
\<close>

theorem verify_ed25519_true_iff_witness:
  "VerifyEd25519Signature sample_host fresh_fs zip_1_3_0 ''c2ln'' ''a2V5''
   \<and> \<not> VerifyEd25519Signature sample_host fresh_fs zip_1_3_0 ''c2ln'' ''not base64''
   \<and> \<not> VerifyEd25519Signature sample_host fresh_fs zip_1_3_0 ''not base64'' ''a2V5''
   \<and> \<not> VerifyEd25519Signature sample_host fresh_fs zip_1_3_0 ''c2ln'' ''c2hvcnQ=''
   \<and> \<not> VerifyEd25519Signature sample_host fresh_fs zip_1_3_0 ''c2hvcnQ='' ''a2V5''
   \<and> \<not> VerifyEd25519Signature sample_host fresh_fs dir_1_3_0 ''c2ln'' ''a2V5''
   \<and> \<not> VerifyEd25519Signature sample_host tampered_fs zip_1_3_0 ''c2ln'' ''a2V5''"
  unfolding verify_ed25519_true_iff
  by (simp add: world_eval ReadFileToString_def)

lemma DeleteFile_elsewhere: "DeleteFile f p q \<noteq> f q \<Longrightarrow> q = p"
  by (auto simp: DeleteFile_def split: option.splits node.splits if_splits)

lemma short_signature_rejected:
  "\<not> VerifyEd25519Signature sample_host f p ''c2hvcnQ='' ''a2V5''"
  by (simp add: verify_eval sample_host_def)

lemma good_archive_extracted:
  "fst (DoVerifyAndExtract sample_host ''a2V5'' fresh_fs zip_1_3_0 ''c2ln'' dir_1_3_0)
     = \<lparr> success = True, error = [] \<rparr>"
  by (simp add: DoVerifyAndExtract_def verify_eval world_eval PathExists_def ExtractZipFile_def
      CreateDirectory_def Unzip_def)

text \<open>
  C2, as stated, fails where a directory \<^verbatim>\<open>versions/1.3.0/\<close> is already on disk when the
  step runs: verification of the archive fails, and the directory is still there
  afterwards.
\<close>

theorem verify_failure_keeps_existing_version_dir:
  "\<not> VerifyEd25519Signature sample_host stale_fs zip_1_3_0 ''c2hvcnQ='' ''a2V5''
   \<and> PathExists
        (snd (DoVerifyAndExtract sample_host ''a2V5'' stale_fs zip_1_3_0 ''c2hvcnQ='' dir_1_3_0))
        dir_1_3_0"
  by (simp add: DoVerifyAndExtract_def short_signature_rejected DeleteFile_def PathExists_def
      stale_fs_def zip_1_3_0_def dir_1_3_0_def)

text \<open>
  C2, amended. In every run of \<^verbatim>\<open>DoVerifyAndExtract\<close>: when verification fails the run
  reports failure with the message of the signature check, its only action on the file
  system is deleting the ZIP (so the ZIP is gone, and the version directory is as it was
  before: not created, and not removed if it was there); a run that succeeds, or that
  changes any path other than the ZIP, has verified the signature.
\<close>

theorem signature_gate:
  assumes "DoVerifyAndExtract e key f zip_path signature dest_dir = (r, f')"
  shows "(\<not> VerifyEd25519Signature e f zip_path signature key \<longrightarrow>
            \<not> success r \<and> error r = ''Signature verification failed''
            \<and> f' = DeleteFile f zip_path
            \<and> (f zip_path \<noteq> Some Dir \<longrightarrow> \<not> PathExists f' zip_path)
            \<and> (dest_dir \<noteq> zip_path \<longrightarrow> f' dest_dir = f dest_dir))
       \<and> (success r \<longrightarrow> VerifyEd25519Signature e f zip_path signature key)
       \<and> (\<forall>q. q \<noteq> zip_path \<and> f' q \<noteq> f q \<longrightarrow>
             VerifyEd25519Signature e f zip_path signature key)"
proof (cases "VerifyEd25519Signature e f zip_path signature key")
  case True
  then show ?thesis by simp
next
  case False
  with assms have r: "r = \<lparr> success = False, error = ''Signature verification failed'' \<rparr>"
    and f': "f' = DeleteFile f zip_path"
    by (simp_all add: DoVerifyAndExtract_def)
  have "\<And>q. q \<noteq> zip_path \<Longrightarrow> f' q = f q"
    using f' DeleteFile_elsewhere by blast
  moreover have "f zip_path \<noteq> Some Dir \<Longrightarrow> \<not> PathExists f' zip_path"
    by (auto simp: f' DeleteFile_def PathExists_def split: option.splits node.splits)
  ultimately show ?thesis using False r f' by auto
qed

text \<open>
  With no version directory on disk: a 5-byte signature fails, the ZIP is deleted and no
  directory appears; the good signature verifies and the run succeeds.
\<close>

theorem signature_gate_witness:
  "\<not> VerifyEd25519Signature sample_host fresh_fs zip_1_3_0 ''c2hvcnQ='' ''a2V5''
   \<and> \<not> success
        (fst (DoVerifyAndExtract sample_host ''a2V5'' fresh_fs zip_1_3_0 ''c2hvcnQ='' dir_1_3_0))
   \<and> \<not> PathExists
        (snd (DoVerifyAndExtract sample_host ''a2V5'' fresh_fs zip_1_3_0 ''c2hvcnQ='' dir_1_3_0))
        zip_1_3_0
   \<and> \<not> PathExists
        (snd (DoVerifyAndExtract sample_host ''a2V5'' fresh_fs zip_1_3_0 ''c2hvcnQ='' dir_1_3_0))
        dir_1_3_0
   \<and> success (fst (DoVerifyAndExtract sample_host ''a2V5'' fresh_fs zip_1_3_0 ''c2ln'' dir_1_3_0))
   \<and> VerifyEd25519Signature sample_host fresh_fs zip_1_3_0 ''c2ln'' ''a2V5''"
proof -
  have bad: "DoVerifyAndExtract sample_host ''a2V5'' fresh_fs zip_1_3_0 ''c2hvcnQ='' dir_1_3_0
    = (fst (DoVerifyAndExtract sample_host ''a2V5'' fresh_fs zip_1_3_0 ''c2hvcnQ='' dir_1_3_0),
       snd (DoVerifyAndExtract sample_host ''a2V5'' fresh_fs zip_1_3_0 ''c2hvcnQ='' dir_1_3_0))"
    by simp
  have good: "DoVerifyAndExtract sample_host ''a2V5'' fresh_fs zip_1_3_0 ''c2ln'' dir_1_3_0
    = (fst (DoVerifyAndExtract sample_host ''a2V5'' fresh_fs zip_1_3_0 ''c2ln'' dir_1_3_0),
       snd (DoVerifyAndExtract sample_host ''a2V5'' fresh_fs zip_1_3_0 ''c2ln'' dir_1_3_0))"
    by simp
  have disk: "fresh_fs zip_1_3_0 \<noteq> Some Dir" "dir_1_3_0 \<noteq> zip_1_3_0" "fresh_fs dir_1_3_0 = None"
    by (simp_all add: world_eval)
  have deleted: "DeleteFile fresh_fs zip_1_3_0 zip_1_3_0 = None"
    "DeleteFile fresh_fs zip_1_3_0 dir_1_3_0 = None"
    by (simp_all add: DeleteFile_def world_eval)
  from signature_gate [OF bad] signature_gate [OF good]
    short_signature_rejected [of fresh_fs zip_1_3_0] good_archive_extracted disk
  show ?thesis by (simp add: PathExists_def deleted)
qed

section \<open>Properties of the updater\<close>

text \<open>
  C1. The updater run at a failed smoke test (exit code 1, version 1.2.0 pending): it
  posts the recursive deletion of \<^verbatim>\<open>versions/1.2.0\<close> and logs \<^verbatim>\<open>server.ota.error\<close>,
  and the stage it logs is \<^verbatim>\<open>verify\<close>, not \<^verbatim>\<open>test\<close>.
\<close>

theorem smoke_test_failure_logs_stage_verify:
  "effects (OnBinaryTestComplete test_env testing_1_2_0 [1, 2, 0] 1 ''boom'') =
     [PostTask (Task_DeletePathRecursively [''profile'', ''.browseros'', ''versions'', ''1.2.0'']),
      Metrics_Log ''server.ota.error''
        [(''stage'', ''verify''), (''error'', ''Binary --version check failed''),
         (''version'', ''1.2.0'')],
      PostTask (Task_DeletePathRecursively_if_exists [''profile'', ''.browseros'', ''pending''])]"
  by (simp add: OnBinaryTestComplete_def OnError_def emit_def ResetState_def
      CleanupPendingUpdate_def testing_1_2_0_def Updater_new_def test_env_def Version_IsValid_def
      path_eval string_eval)

text \<open>The same at every non-zero exit code, version and updater state.\<close>

lemma smoke_test_failure_effects:
  "exit_code \<noteq> 0 \<Longrightarrow>
   effects (OnBinaryTestComplete e u v exit_code output) =
     effects u @
     [PostTask (Task_DeletePathRecursively (GetVersionDir e v)),
      Metrics_Log ''server.ota.error''
        ([(''stage'', ''verify''), (''error'', ''Binary --version check failed'')]
         @ (if Version_IsValid (version (pending_item u))
            then [(''version'', Version_GetString (version (pending_item u)))] else [])),
      PostTask (Task_DeletePathRecursively_if_exists (GetPendingUpdateDir e))]"
  by (simp add: OnBinaryTestComplete_def OnError_def emit_def ResetState_def
      CleanupPendingUpdate_def Let_def)

text \<open>
  C6. Reading the version cache as a pair of optional versions, with an absent version
  below every present one: \<^verbatim>\<open>GetBestServerBinaryPath\<close> and
  \<^verbatim>\<open>GetBestServerResourcesPath\<close> return the paths of the downloaded version when
  downloaded is greater than bundled, and the bundled paths otherwise.
\<close>

theorem best_paths_follow_version_cache:
  "GetBestServerBinaryPath e u =
     (if optional_version_gt (cache_entry (cached_downloaded_version u))
           (cache_entry (cached_bundled_version u))
      then GetDownloadedBinaryPath e (cached_downloaded_version u)
      else GetBundledBinaryPath e)
   \<and> GetBestServerResourcesPath e u =
     (if optional_version_gt (cache_entry (cached_downloaded_version u))
           (cache_entry (cached_bundled_version u))
      then GetDownloadedResourcesPath e (cached_downloaded_version u)
      else GetBundledResourcesPath e)"
  by (simp add: GetBestServerBinaryPath_def GetBestServerResourcesPath_def cache_entry_def Let_def)

text \<open>
  Downloaded 1.2.0 over bundled 1.0.0 gives the downloaded paths; downloaded equal to
  bundled, older than bundled, or absent gives the bundled paths; downloaded 1.2.0 with
  no bundled version known gives the downloaded path.
\<close>

theorem best_paths_follow_version_cache_witness:
  "GetBestServerBinaryPath test_env
      (Updater_new\<lparr> cached_downloaded_version := [1, 2, 0], cached_bundled_version := [1, 0, 0] \<rparr>)
     = [''profile'', ''.browseros'', ''versions'', ''1.2.0'', ''resources'', ''bin'',
        ''browseros_server'']
   \<and> GetBestServerResourcesPath test_env
      (Updater_new\<lparr> cached_downloaded_version := [1, 2, 0], cached_bundled_version := [1, 0, 0] \<rparr>)
     = [''profile'', ''.browseros'', ''versions'', ''1.2.0'', ''resources'']
   \<and> GetBestServerBinaryPath test_env
      (Updater_new\<lparr> cached_downloaded_version := [1, 0, 0], cached_bundled_version := [1, 0, 0] \<rparr>)
     = [''app'', ''bin'', ''browseros_server'']
   \<and> GetBestServerBinaryPath test_env
      (Updater_new\<lparr> cached_downloaded_version := [0, 9], cached_bundled_version := [1, 0, 0] \<rparr>)
     = [''app'', ''bin'', ''browseros_server'']
   \<and> GetBestServerBinaryPath test_env
      (Updater_new\<lparr> cached_downloaded_version := [], cached_bundled_version := [1, 0, 0] \<rparr>)
     = [''app'', ''bin'', ''browseros_server'']
   \<and> GetBestServerResourcesPath test_env
      (Updater_new\<lparr> cached_downloaded_version := [], cached_bundled_version := [] \<rparr>)
     = [''app'', ''resources'']
   \<and> GetBestServerBinaryPath test_env
      (Updater_new\<lparr> cached_downloaded_version := [1, 2, 0], cached_bundled_version := [] \<rparr>)
     = [''profile'', ''.browseros'', ''versions'', ''1.2.0'', ''resources'', ''bin'',
        ''browseros_server'']"
  using
    best_paths_follow_version_cache [of test_env
      "Updater_new\<lparr> cached_downloaded_version := [1, 2, 0], cached_bundled_version := [1, 0, 0] \<rparr>"]
    best_paths_follow_version_cache [of test_env
      "Updater_new\<lparr> cached_downloaded_version := [1, 0, 0], cached_bundled_version := [1, 0, 0] \<rparr>"]
    best_paths_follow_version_cache [of test_env
      "Updater_new\<lparr> cached_downloaded_version := [0, 9], cached_bundled_version := [1, 0, 0] \<rparr>"]
    best_paths_follow_version_cache [of test_env
      "Updater_new\<lparr> cached_downloaded_version := [], cached_bundled_version := [1, 0, 0] \<rparr>"]
    best_paths_follow_version_cache [of test_env
      "Updater_new\<lparr> cached_downloaded_version := [], cached_bundled_version := [] \<rparr>"]
    best_paths_follow_version_cache [of test_env
      "Updater_new\<lparr> cached_downloaded_version := [1, 2, 0], cached_bundled_version := [] \<rparr>"]
  by (simp add: cache_entry_def Version_IsValid_def Version_gt_def Updater_new_def test_env_def
      GetDownloadedBinaryPath_def GetDownloadedResourcesPath_def GetBundledBinaryPath_def
      GetBundledResourcesPath_def path_eval string_eval Let_def)

text \<open>
  C8. \<^verbatim>\<open>OnStatusFetched\<close> postpones the hot-swap (logs \<^verbatim>\<open>server.ota.busy\<close> and resets)
  exactly when there is a response, it parses to a JSON object, and that object holds the
  boolean \<^verbatim>\<open>can_update\<close> = false. In every other case (no response, unparsable body,
  a JSON value that is not an object, no boolean \<^verbatim>\<open>can_update\<close> in it, or
  \<^verbatim>\<open>can_update\<close> = true) it performs the hot-swap to the pending version.
\<close>

theorem status_gate_fail_open:
  "OnStatusFetched e u response =
     (if (\<exists>body dict. response = Some body \<and> JSONReader_Read e body = Some (DICT dict)
            \<and> FindBool dict ''can_update'' = Some False)
      then ResetState
             (emit (Metrics_Log ''server.ota.busy''
                      [(''pending_version'', Version_GetString (version (pending_item u)))]) u)
      else PerformHotSwap e u (version (pending_item u)))"
  by (auto simp: OnStatusFetched_def OnServerStatusChecked_def split: option.splits Value.splits)

lemma hot_swap_1_2_0:
  "effects (PerformHotSwap test_env testing_1_2_0 (version (pending_item testing_1_2_0))) =
     [Prefs_SetString ''browseros.server.version'' ''1.2.0'',
      PostTask (Task_WriteFile [''profile'', ''.browseros'', ''current_version''] ''1.2.0''),
      Manager_RestartServerForUpdate [1, 0, 0] [1, 2, 0]]"
  by (simp add: PerformHotSwap_def WriteCurrentVersionFile_def GetCurrentVersion_def
      GetLatestDownloadedVersion_def GetBundledVersion_def emit_def testing_1_2_0_def
      Updater_new_def test_env_def Version_IsValid_def kServerVersion_def path_eval string_eval
      Let_def)

lemma busy_1_2_0:
  "effects (ResetState (emit (Metrics_Log ''server.ota.busy''
      [(''pending_version'', Version_GetString (version (pending_item testing_1_2_0)))])
      testing_1_2_0))
   = [Metrics_Log ''server.ota.busy'' [(''pending_version'', ''1.2.0'')]]"
  by (simp add: ResetState_def emit_def testing_1_2_0_def Updater_new_def string_eval)

lemma status_bodies_parsed:
  "JSONReader_Read test_env status_busy = Some (DICT [(''can_update'', BOOLEAN False)])"
  "JSONReader_Read test_env status_ready = Some (DICT [(''can_update'', BOOLEAN True)])"
  "JSONReader_Read test_env status_mistyped = Some (DICT [(''can_update'', STRING ''no'')])"
  "JSONReader_Read test_env ''{}'' = Some (DICT [])"
  "JSONReader_Read test_env ''[]'' = Some (LIST [])"
  "JSONReader_Read test_env ''<html>'' = None"
  by (simp_all add: test_env_def status_busy_def status_ready_def status_mistyped_def)

text \<open>
  With 1.2.0 pending: the busy answer only logs \<^verbatim>\<open>server.ota.busy\<close>; a failed fetch, a
  body that is not JSON, a JSON list, an empty object, an object whose \<^verbatim>\<open>can_update\<close> is
  not a boolean, and the ready answer all reach the manager's restart.
\<close>

theorem status_gate_fail_open_witness:
  "effects (OnStatusFetched test_env testing_1_2_0 (Some status_busy))
     = [Metrics_Log ''server.ota.busy'' [(''pending_version'', ''1.2.0'')]]
   \<and> Manager_RestartServerForUpdate [1, 0, 0] [1, 2, 0]
       \<in> set (effects (OnStatusFetched test_env testing_1_2_0 None))
   \<and> Manager_RestartServerForUpdate [1, 0, 0] [1, 2, 0]
       \<in> set (effects (OnStatusFetched test_env testing_1_2_0 (Some ''<html>'')))
   \<and> Manager_RestartServerForUpdate [1, 0, 0] [1, 2, 0]
       \<in> set (effects (OnStatusFetched test_env testing_1_2_0 (Some ''[]'')))
   \<and> Manager_RestartServerForUpdate [1, 0, 0] [1, 2, 0]
       \<in> set (effects (OnStatusFetched test_env testing_1_2_0 (Some ''{}'')))
   \<and> Manager_RestartServerForUpdate [1, 0, 0] [1, 2, 0]
       \<in> set (effects (OnStatusFetched test_env testing_1_2_0 (Some status_mistyped)))
   \<and> Manager_RestartServerForUpdate [1, 0, 0] [1, 2, 0]
       \<in> set (effects (OnStatusFetched test_env testing_1_2_0 (Some status_ready)))"
proof -
  note gate = status_gate_fail_open [of test_env testing_1_2_0]
  have postponed: "OnStatusFetched test_env testing_1_2_0 (Some status_busy) =
      ResetState (emit (Metrics_Log ''server.ota.busy''
        [(''pending_version'', Version_GetString (version (pending_item testing_1_2_0)))])
        testing_1_2_0)"
    using gate [of "Some status_busy"] by (simp add: status_bodies_parsed FindBool_def)
  have no_response: "OnStatusFetched test_env testing_1_2_0 None =
      PerformHotSwap test_env testing_1_2_0 (version (pending_item testing_1_2_0))"
    using gate [of None] by simp
  have not_json: "OnStatusFetched test_env testing_1_2_0 (Some ''<html>'') =
      PerformHotSwap test_env testing_1_2_0 (version (pending_item testing_1_2_0))"
    using gate [of "Some ''<html>''"] by (simp add: status_bodies_parsed)
  have not_object: "OnStatusFetched test_env testing_1_2_0 (Some ''[]'') =
      PerformHotSwap test_env testing_1_2_0 (version (pending_item testing_1_2_0))"
    using gate [of "Some ''[]''"] by (simp add: status_bodies_parsed)
  have no_field: "OnStatusFetched test_env testing_1_2_0 (Some ''{}'') =
      PerformHotSwap test_env testing_1_2_0 (version (pending_item testing_1_2_0))"
    using gate [of "Some ''{}''"] by (simp add: status_bodies_parsed FindBool_def)
  have mistyped: "OnStatusFetched test_env testing_1_2_0 (Some status_mistyped) =
      PerformHotSwap test_env testing_1_2_0 (version (pending_item testing_1_2_0))"
    using gate [of "Some status_mistyped"] by (simp add: status_bodies_parsed FindBool_def)
  have ready: "OnStatusFetched test_env testing_1_2_0 (Some status_ready) =
      PerformHotSwap test_env testing_1_2_0 (version (pending_item testing_1_2_0))"
    using gate [of "Some status_ready"] by (simp add: status_bodies_parsed FindBool_def)
  show ?thesis
    unfolding postponed no_response not_json not_object no_field mistyped ready
      hot_swap_1_2_0 busy_1_2_0
    by simp
qed

text \<open>
  C10. While the bundled-version cache or the downloaded-version cache has not finished
  loading, \<^verbatim>\<open>CheckNow\<close>, the timer callback \<^verbatim>\<open>OnUpdateTimer\<close> and
  \<^verbatim>\<open>CheckVersionCachesAndStart\<close> return the updater unchanged: no state changes and no
  appcast fetch begins.
\<close>

theorem check_now_noop_until_caches_loaded:
  assumes "\<not> bundled_version_loaded u \<or> \<not> downloaded_version_loaded u"
  shows "CheckNow e u = u \<and> OnUpdateTimer e u = u \<and> CheckVersionCachesAndStart e u = u"
  using assms by (auto simp: CheckNow_def OnUpdateTimer_def CheckVersionCachesAndStart_def)

lemma half_loaded:
  "\<not> bundled_version_loaded (OnDownloadedVersionLoaded test_env (Start test_env Updater_new) ''1.0.0'')"
  "state (OnDownloadedVersionLoaded test_env (Start test_env Updater_new) ''1.0.0'') = kIdle"
  "appcast_loader (OnDownloadedVersionLoaded test_env (Start test_env Updater_new) ''1.0.0'') = None"
  by (simp_all add: OnDownloadedVersionLoaded_def CheckVersionCachesAndStart_def Start_def
      LoadVersionCachesAsync_def emit_def Updater_new_def Let_def)

text \<open>
  After \<^verbatim>\<open>Start\<close>, once the downloaded version has loaded and the bundled one has not,
  a timer tick changes nothing and the updater is idle with no appcast loader.
\<close>

theorem check_now_noop_until_caches_loaded_witness:
  "\<not> bundled_version_loaded
       (OnDownloadedVersionLoaded test_env (Start test_env Updater_new) ''1.0.0'')
   \<and> OnUpdateTimer test_env
       (OnDownloadedVersionLoaded test_env (Start test_env Updater_new) ''1.0.0'')
       = OnDownloadedVersionLoaded test_env (Start test_env Updater_new) ''1.0.0''
   \<and> state (OnDownloadedVersionLoaded test_env (Start test_env Updater_new) ''1.0.0'') = kIdle
   \<and> appcast_loader (OnDownloadedVersionLoaded test_env (Start test_env Updater_new) ''1.0.0'')
       = None"
proof -
  have "\<not> bundled_version_loaded
            (OnDownloadedVersionLoaded test_env (Start test_env Updater_new) ''1.0.0'')
     \<or> \<not> downloaded_version_loaded
            (OnDownloadedVersionLoaded test_env (Start test_env Updater_new) ''1.0.0'')"
    using half_loaded(1) by simp
  from check_now_noop_until_caches_loaded [OF this, of test_env] half_loaded
  show ?thesis by simp
qed

section \<open>Properties of the supervisor\<close>

lemma resolve_requests_append:
  "resolve_requests (xs @ ys) = resolve_requests xs @ resolve_requests ys"
  by (induction xs rule: resolve_requests.induct) simp_all

lemma launched_ports_append:
  "launched_ports (xs @ ys) = launched_ports xs @ launched_ports ys"
  by (induction xs rule: launched_ports.induct) simp_all

lemma LaunchAndRecord_effect:
  "server_ports (LaunchAndRecord d s) = server_ports s"
  "pref_ports (LaunchAndRecord d s) = pref_ports s"
  "is_running (LaunchAndRecord d s) = is_running s"
  "consecutive_health_check_failures (LaunchAndRecord d s) = consecutive_health_check_failures s"
  "last_restart_revalidated_all_ports (LaunchAndRecord d s) = last_restart_revalidated_all_ports s"
  "resolve_requests (calls (LaunchAndRecord d s)) = resolve_requests (calls s)"
  "launched_ports (calls (LaunchAndRecord d s)) = launched_ports (calls s) @ [server_ports s]"
  "prefix (calls s) (calls (LaunchAndRecord d s))"
  by (simp_all add: LaunchAndRecord_def BuildLaunchConfig_def did_def Let_def
      resolve_requests_append launched_ports_append split: option.splits)

lemma TerminateCurrent_effect:
  "server_ports (TerminateCurrent b s) = server_ports s"
  "pref_ports (TerminateCurrent b s) = pref_ports s"
  "is_running (TerminateCurrent b s) = is_running s"
  "consecutive_health_check_failures (TerminateCurrent b s) = consecutive_health_check_failures s"
  "resolve_requests (calls (TerminateCurrent b s)) = resolve_requests (calls s)"
  "launched_ports (calls (TerminateCurrent b s)) = launched_ports (calls s)"
  by (simp_all add: TerminateCurrent_def did_def resolve_requests_append launched_ports_append
      split: option.splits)

lemma ResolveAndSavePorts_effect:
  "server_ports (ResolveAndSavePorts d wanted s) = ResolvePorts d wanted"
  "pref_ports (ResolveAndSavePorts d wanted s) = ResolvePorts d wanted"
  "is_running (ResolveAndSavePorts d wanted s) = is_running s"
  "consecutive_health_check_failures (ResolveAndSavePorts d wanted s)
     = consecutive_health_check_failures s"
  "resolve_requests (calls (ResolveAndSavePorts d wanted s)) = resolve_requests (calls s) @ [wanted]"
  "launched_ports (calls (ResolveAndSavePorts d wanted s)) = launched_ports (calls s)"
  "prefix (calls s) (calls (ResolveAndSavePorts d wanted s))"
  by (simp_all add: ResolveAndSavePorts_def did_def Let_def resolve_requests_append
      launched_ports_append)

lemma TargetedRestart_effect:
  "server_ports (TargetedRestart d s) = server_ports s"
  "pref_ports (TargetedRestart d s) = pref_ports s"
  "is_running (TargetedRestart d s) = is_running s"
  "consecutive_health_check_failures (TargetedRestart d s) = consecutive_health_check_failures s"
  "\<not> last_restart_revalidated_all_ports (TargetedRestart d s)"
  "resolve_requests (calls (TargetedRestart d s)) = resolve_requests (calls s)"
  "launched_ports (calls (TargetedRestart d s)) = launched_ports (calls s) @ [server_ports s]"
  by (simp_all add: TargetedRestart_def LaunchAndRecord_effect TerminateCurrent_effect)

lemma FullRevalidationRestart_effect:
  "server_ports (FullRevalidationRestart d s) = ResolvePorts d default_ports"
  "pref_ports (FullRevalidationRestart d s) = ResolvePorts d default_ports"
  "is_running (FullRevalidationRestart d s) = is_running s"
  "last_restart_revalidated_all_ports (FullRevalidationRestart d s)"
  "resolve_requests (calls (FullRevalidationRestart d s)) = resolve_requests (calls s) @ [default_ports]"
  "launched_ports (calls (FullRevalidationRestart d s))
     = launched_ports (calls s) @ [ResolvePorts d default_ports]"
  by (simp_all add: FullRevalidationRestart_def LaunchAndRecord_effect
      ResolveAndSavePorts_effect TerminateCurrent_effect)

lemma Supervisor_Start_runs_recovery_first:
  assumes "lock_acquired d"
  shows "prefix (calls (RecoverFromOrphan s)) (calls (Supervisor_Start d s))"
proof -
  let ?r = "RecoverFromOrphan s"
  let ?p = "ResolveAndSavePorts d (pref_ports ?r) ?r"
  have "calls (Supervisor_Start d s) = calls (LaunchAndRecord d ?p) @ [Updater_Start]"
    using assms by (simp add: Supervisor_Start_def Let_def did_def)
  moreover have "prefix (calls ?r) (calls ?p)"
    by (rule ResolveAndSavePorts_effect)
  moreover have "prefix (calls ?p) (calls (LaunchAndRecord d ?p))"
    by (rule LaunchAndRecord_effect)
  ultimately show ?thesis
    by (metis prefix_order.trans prefix_prefix)
qed

lemma find_available_free:
  "1024 \<le> p \<Longrightarrow> p \<le> 65535 \<Longrightarrow> p \<notin> set excluded \<Longrightarrow> is_port_bindable d p \<Longrightarrow>
   find_available d p excluded = p"
  by (subst find_available.simps) (simp add: is_port_available_def)

lemma find_available_taken:
  "p \<le> 65535 \<Longrightarrow> \<not> is_port_bindable d p \<Longrightarrow>
   find_available d p excluded = find_available d (p + 1) excluded"
  by (subst find_available.simps) (simp add: is_port_available_def)

text \<open>
  C3. Orphan recovery, the first step of the start sequence once the lock is held, reads
  the state store once, terminates by force the recorded process if it is alive with the
  recorded creation time, and then calls \<^verbatim>\<open>StateStore.delete()\<close>: when the process was
  alive, when it was gone, and when no state was read at all. No state file is left.
\<close>

theorem orphan_recovery_always_deletes:
  "calls (RecoverFromOrphan s) =
     calls s @ StateStore_Read #
       (case state_file s of
          None \<Rightarrow> []
        | Some st \<Rightarrow>
            if process_table s (pid st) = Some (creation_time st)
            then [ProcessController_Terminate (pid st) True] else [])
       @ [StateStore_Delete]
   \<and> state_file (RecoverFromOrphan s) = None
   \<and> (lock_acquired d \<longrightarrow>
        prefix (calls (RecoverFromOrphan s)) (calls (Supervisor_Start d s)))"
proof -
  have "calls (RecoverFromOrphan s) =
     calls s @ StateStore_Read #
       (case state_file s of
          None \<Rightarrow> []
        | Some st \<Rightarrow>
            if process_table s (pid st) = Some (creation_time st)
            then [ProcessController_Terminate (pid st) True] else [])
       @ [StateStore_Delete]"
    by (simp add: RecoverFromOrphan_def did_def Let_def split: option.splits)
  moreover have "state_file (RecoverFromOrphan s) = None"
    by (simp add: RecoverFromOrphan_def did_def Let_def)
  ultimately show ?thesis
    using Supervisor_Start_runs_recovery_first [of d s] by blast
qed

text \<open>
  With no state file the recovery reads and deletes; with a live orphan it reads, kills
  and deletes; with the PID taken by a later process it reads and deletes without a kill;
  and a start on a fresh profile begins with the read and the delete.
\<close>

theorem orphan_recovery_always_deletes_witness:
  "state_file Supervisor_new = None
   \<and> calls (RecoverFromOrphan Supervisor_new) = [StateStore_Read, StateStore_Delete]
   \<and> calls (RecoverFromOrphan crashed_with_orphan)
       = [StateStore_Read, ProcessController_Terminate 12345 True, StateStore_Delete]
   \<and> calls (RecoverFromOrphan crashed_pid_reused) = [StateStore_Read, StateStore_Delete]
   \<and> lock_acquired test_deps
   \<and> prefix [StateStore_Read, StateStore_Delete] (calls (Supervisor_Start test_deps Supervisor_new))"
proof -
  note fresh = orphan_recovery_always_deletes [of Supervisor_new test_deps]
  note orphan = orphan_recovery_always_deletes [of crashed_with_orphan test_deps]
  note reused = orphan_recovery_always_deletes [of crashed_pid_reused test_deps]
  have absent: "state_file Supervisor_new = None" "calls Supervisor_new = []"
    by (simp_all add: Supervisor_new_def)
  have no_state: "calls (RecoverFromOrphan Supervisor_new) = [StateStore_Read, StateStore_Delete]"
    using fresh absent by simp
  have alive: "calls (RecoverFromOrphan crashed_with_orphan)
      = [StateStore_Read, ProcessController_Terminate 12345 True, StateStore_Delete]"
    using orphan by (simp add: crashed_with_orphan_def Supervisor_new_def)
  have gone: "calls (RecoverFromOrphan crashed_pid_reused) = [StateStore_Read, StateStore_Delete]"
    using reused by (simp add: crashed_pid_reused_def Supervisor_new_def)
  have lock: "lock_acquired test_deps"
    by (simp add: test_deps_def)
  have "prefix (calls (RecoverFromOrphan Supervisor_new))
          (calls (Supervisor_Start test_deps Supervisor_new))"
    using fresh lock by blast
  then show ?thesis
    using absent no_state alive gone lock by simp
qed

text \<open>
  C4. From a running supervisor whose failure counter is 0, three health-check failures
  in a row. The first and the second each relaunch on the ports in use, ask the port
  prober for nothing, leave the ports as they were and
  \<^verbatim>\<open>DidLastRestartRevalidateAllPorts\<close> false, and bring the counter to 1 and 2. The third
  hands the default ports to the port prober, once, takes and saves the ports resolved
  from them, launches on those, sets \<^verbatim>\<open>DidLastRestartRevalidateAllPorts\<close>, and leaves
  the counter at 0.
\<close>

theorem three_failures_escalate_once:
  assumes "is_running s" and "consecutive_health_check_failures s = 0"
  shows "server_ports (health_results d s [False]) = server_ports s
       \<and> resolve_requests (calls (health_results d s [False])) = resolve_requests (calls s)
       \<and> launched_ports (calls (health_results d s [False]))
           = launched_ports (calls s) @ [server_ports s]
       \<and> \<not> DidLastRestartRevalidateAllPorts (health_results d s [False])
       \<and> GetConsecutiveHealthCheckFailures (health_results d s [False]) = 1
       \<and> server_ports (health_results d s [False, False]) = server_ports s
       \<and> resolve_requests (calls (health_results d s [False, False])) = resolve_requests (calls s)
       \<and> launched_ports (calls (health_results d s [False, False]))
           = launched_ports (calls s) @ [server_ports s, server_ports s]
       \<and> \<not> DidLastRestartRevalidateAllPorts (health_results d s [False, False])
       \<and> GetConsecutiveHealthCheckFailures (health_results d s [False, False]) = 2
       \<and> server_ports (health_results d s [False, False, False]) = ResolvePorts d default_ports
       \<and> pref_ports (health_results d s [False, False, False]) = ResolvePorts d default_ports
       \<and> resolve_requests (calls (health_results d s [False, False, False]))
           = resolve_requests (calls s) @ [default_ports]
       \<and> launched_ports (calls (health_results d s [False, False, False]))
           = launched_ports (calls s)
             @ [server_ports s, server_ports s, ResolvePorts d default_ports]
       \<and> DidLastRestartRevalidateAllPorts (health_results d s [False, False, False])
       \<and> GetConsecutiveHealthCheckFailures (health_results d s [False, False, False]) = 0"
proof -
  let ?s1 = "OnHealthCheckComplete d s False"
  let ?s2 = "OnHealthCheckComplete d ?s1 False"
  let ?s3 = "OnHealthCheckComplete d ?s2 False"
  have s1: "?s1 = TargetedRestart d (s\<lparr> consecutive_health_check_failures := 1 \<rparr>)"
    using assms by (simp add: OnHealthCheckComplete_def)
  have f1: "is_running ?s1" "consecutive_health_check_failures ?s1 = 1"
    "server_ports ?s1 = server_ports s"
    "resolve_requests (calls ?s1) = resolve_requests (calls s)"
    "launched_ports (calls ?s1) = launched_ports (calls s) @ [server_ports s]"
    "\<not> last_restart_revalidated_all_ports ?s1"
    using assms by (simp_all add: s1 TargetedRestart_effect)
  have s2: "?s2 = TargetedRestart d (?s1\<lparr> consecutive_health_check_failures := Suc (Suc 0) \<rparr>)"
    using f1 by (simp add: OnHealthCheckComplete_def [of d ?s1])
  have f2: "is_running ?s2" "consecutive_health_check_failures ?s2 = 2"
    "server_ports ?s2 = server_ports s"
    "resolve_requests (calls ?s2) = resolve_requests (calls s)"
    "launched_ports (calls ?s2) = launched_ports (calls s) @ [server_ports s, server_ports s]"
    "\<not> last_restart_revalidated_all_ports ?s2"
    unfolding s2 using f1 by (simp_all add: TargetedRestart_effect)
  have s3: "?s3 = (FullRevalidationRestart d (?s2\<lparr> consecutive_health_check_failures := 3 \<rparr>))
                    \<lparr> consecutive_health_check_failures := 0 \<rparr>"
    using f2 by (simp add: OnHealthCheckComplete_def [of d ?s2])
  have f3: "consecutive_health_check_failures ?s3 = 0"
    "server_ports ?s3 = ResolvePorts d default_ports"
    "pref_ports ?s3 = ResolvePorts d default_ports"
    "resolve_requests (calls ?s3) = resolve_requests (calls s) @ [default_ports]"
    "launched_ports (calls ?s3)
       = launched_ports (calls s) @ [server_ports s, server_ports s, ResolvePorts d default_ports]"
    "last_restart_revalidated_all_ports ?s3"
    unfolding s3 using f2 by (simp_all add: FullRevalidationRestart_effect)
  show ?thesis
    using f1 f2 f3
    by (simp add: GetConsecutiveHealthCheckFailures_def DidLastRestartRevalidateAllPorts_def)
qed

lemma started_on_8000_state:
  "is_running started_on_8000"
  "consecutive_health_check_failures started_on_8000 = 0"
  "server_ports started_on_8000 = \<lparr> cdp = 8000, mcp = 8100, extension = 8300 \<rparr>"
  "resolve_requests (calls started_on_8000) = [\<lparr> cdp = 8000, mcp = 8100, extension = 8300 \<rparr>]"
  "launched_ports (calls started_on_8000) = [\<lparr> cdp = 8000, mcp = 8100, extension = 8300 \<rparr>]"
  by (simp_all add: started_on_8000_def Supervisor_Start_def Supervisor_new_def test_deps_def
      RecoverFromOrphan_def did_def Let_def ResolveAndSavePorts_def LaunchAndRecord_def
      BuildLaunchConfig_def ResolvePorts_def find_available_free)

lemma defaults_with_9100_taken:
  "ResolvePorts busy_9100_deps default_ports = \<lparr> cdp = 9000, mcp = 9101, extension = 9300 \<rparr>"
  by (simp add: ResolvePorts_def default_ports_def kDefaultCDPPort_def kDefaultMCPPort_def
      kDefaultExtensionPort_def busy_9100_deps_def test_deps_def find_available_free
      find_available_taken Let_def)

text \<open>
  A supervisor running on 8000, 8100 and 8300 while another process holds 9100: two
  failures relaunch on 8000, 8100 and 8300 and resolve nothing; the third resolves the
  defaults and moves the supervisor to 9000, 9101 and 9300.
\<close>

theorem three_failures_escalate_once_witness:
  "is_running started_on_8000 \<and> consecutive_health_check_failures started_on_8000 = 0
   \<and> server_ports (health_results busy_9100_deps started_on_8000 [False, False])
       = \<lparr> cdp = 8000, mcp = 8100, extension = 8300 \<rparr>
   \<and> resolve_requests (calls (health_results busy_9100_deps started_on_8000 [False, False]))
       = [\<lparr> cdp = 8000, mcp = 8100, extension = 8300 \<rparr>]
   \<and> \<not> DidLastRestartRevalidateAllPorts
          (health_results busy_9100_deps started_on_8000 [False, False])
   \<and> server_ports (health_results busy_9100_deps started_on_8000 [False, False, False])
       = \<lparr> cdp = 9000, mcp = 9101, extension = 9300 \<rparr>
   \<and> resolve_requests
        (calls (health_results busy_9100_deps started_on_8000 [False, False, False]))
       = [\<lparr> cdp = 8000, mcp = 8100, extension = 8300 \<rparr>,
          \<lparr> cdp = 9000, mcp = 9100, extension = 9300 \<rparr>]
   \<and> launched_ports
        (calls (health_results busy_9100_deps started_on_8000 [False, False, False]))
       = [\<lparr> cdp = 8000, mcp = 8100, extension = 8300 \<rparr>,
          \<lparr> cdp = 8000, mcp = 8100, extension = 8300 \<rparr>,
          \<lparr> cdp = 8000, mcp = 8100, extension = 8300 \<rparr>,
          \<lparr> cdp = 9000, mcp = 9101, extension = 9300 \<rparr>]
   \<and> DidLastRestartRevalidateAllPorts
        (health_results busy_9100_deps started_on_8000 [False, False, False])
   \<and> GetConsecutiveHealthCheckFailures
        (health_results busy_9100_deps started_on_8000 [False, False, False]) = 0"
proof -
  note run = three_failures_escalate_once
    [OF started_on_8000_state(1) started_on_8000_state(2), of busy_9100_deps]
  have defaults: "default_ports = \<lparr> cdp = 9000, mcp = 9100, extension = 9300 \<rparr>"
    by (simp add: default_ports_def kDefaultCDPPort_def kDefaultMCPPort_def
        kDefaultExtensionPort_def)
  show ?thesis
    using run started_on_8000_state
    by (simp add: defaults_with_9100_taken defaults [symmetric])
qed

text \<open>
  C5. \<^verbatim>\<open>RestartServerForUpdate\<close>, called while a restart is in progress, runs the
  callback with false before it returns and leaves the supervisor as it was: ports,
  process, state file and every other part of its state.
\<close>

theorem concurrent_update_restart_rejected:
  assumes "is_restarting s"
  shows "RestartServerForUpdate d s = (s, Some False)"
  using assms by (simp add: RestartServerForUpdate_def)

lemma first_update_restart_proceeds:
  "\<not> is_restarting s \<Longrightarrow>
   is_restarting (fst (RestartServerForUpdate d s)) \<and> snd (RestartServerForUpdate d s) = None"
  by (simp add: RestartServerForUpdate_def TerminateCurrent_def did_def split: option.splits)

text \<open>
  Two calls in a row on the started supervisor: the first proceeds with its callback
  pending, the second is answered false at once and changes nothing.
\<close>

theorem concurrent_update_restart_rejected_witness:
  "\<not> is_restarting started
   \<and> snd (RestartServerForUpdate test_deps started) = None
   \<and> is_restarting (fst (RestartServerForUpdate test_deps started))
   \<and> RestartServerForUpdate test_deps (fst (RestartServerForUpdate test_deps started))
       = (fst (RestartServerForUpdate test_deps started), Some False)"
proof -
  have idle: "\<not> is_restarting started"
    by (simp add: started_def Supervisor_Start_def Supervisor_new_def test_deps_def
        RecoverFromOrphan_def did_def Let_def ResolveAndSavePorts_def LaunchAndRecord_def)
  from first_update_restart_proceeds [OF idle, of test_deps]
    concurrent_update_restart_rejected [of "fst (RestartServerForUpdate test_deps started)"
      test_deps]
    idle
  show ?thesis by simp
qed

end
